theory Spec2Isabelle
  imports Main "HOL-Library.Word"
begin

section \<open>Buffers, hexadecimal text and message strings\<close>

text \<open>
  \<^verbatim>\<open>src/code/part-one/signing.js\<close> moves data between two representations: Node Buffers
  (byte sequences) and JavaScript strings. A Buffer is a list of bytes. Every string, be
  it a key, a public key, a signature or a message, is a sequence of UTF-16 code units.
\<close>

type_synonym byte = "8 word"
type_synonym buffer = "byte list"
type_synonym js_string = "16 word list"

text \<open>An ASCII literal as a JavaScript string.\<close>

definition js :: "string \<Rightarrow> js_string" where
  "js s = map (\<lambda>c. of_nat (of_char c)) s"

text \<open>\<^verbatim>\<open>buf.toString('hex')\<close>: two lowercase digits for each byte.\<close>

definition hex_digit :: "nat \<Rightarrow> 16 word" where
  "hex_digit k = (if k < 10 then of_nat (48 + k) else of_nat (87 + k))"

definition toString_hex :: "buffer \<Rightarrow> js_string" where
  "toString_hex buf = concat (map (\<lambda>b. [hex_digit (unat b div 16), hex_digit (unat b mod 16)]) buf)"

text \<open>The value of a hexadecimal digit, in either case, given by its character code.\<close>

definition hex_value :: "nat \<Rightarrow> nat option" where
  "hex_value n =
     (if 48 \<le> n \<and> n \<le> 57 then Some (n - 48)
      else if 97 \<le> n \<and> n \<le> 102 then Some (n - 87)
      else if 65 \<le> n \<and> n \<le> 70 then Some (n - 55)
      else None)"

text \<open>
  \<^verbatim>\<open>Buffer.from(str, 'hex')\<close> (Node 8 and later): the string is read two code units at
  a time, and only the low byte of each code unit is looked at. Decoding stops, without an
  error, at the first pair whose low bytes are not both hexadecimal digits, and a single
  trailing code unit is dropped.
\<close>

definition unhex :: "16 word \<Rightarrow> nat option" where
  "unhex u = hex_value (unat u mod 256)"

fun from_hex :: "js_string \<Rightarrow> buffer" where
  "from_hex (a # b # rest) =
     (case unhex a of
        None \<Rightarrow> []
      | Some hi \<Rightarrow> (case unhex b of
          None \<Rightarrow> []
        | Some lo \<Rightarrow> of_nat (16 * hi + lo) # from_hex rest))"
| "from_hex _ = []"

text \<open>A code unit that is a hexadecimal digit, and one that is a lowercase one.\<close>

definition is_hex :: "16 word \<Rightarrow> bool" where
  "is_hex u \<longleftrightarrow> hex_value (unat u) \<noteq> None"

definition is_lower_hex :: "16 word \<Rightarrow> bool" where
  "is_lower_hex u \<longleftrightarrow> (let n = unat u in (48 \<le> n \<and> n \<le> 57) \<or> (97 \<le> n \<and> n \<le> 102))"

text \<open>
  The UTF-8 encoding Node applies to a string passed to \<^verbatim>\<open>hash.update\<close>: a surrogate
  pair becomes the four bytes of its code point, and a surrogate that is not part of a
  pair becomes the three bytes of U+FFFD.
\<close>

definition utf8_code_point :: "nat \<Rightarrow> buffer" where
  "utf8_code_point c =
     (if c < 128 then [of_nat c]
      else if c < 2048 then [of_nat (192 + c div 64), of_nat (128 + c mod 64)]
      else if c < 65536 then
        [of_nat (224 + c div 4096), of_nat (128 + c div 64 mod 64), of_nat (128 + c mod 64)]
      else
        [of_nat (240 + c div 262144), of_nat (128 + c div 4096 mod 64),
         of_nat (128 + c div 64 mod 64), of_nat (128 + c mod 64)])"

definition is_high_surrogate :: "nat \<Rightarrow> bool" where
  "is_high_surrogate u \<longleftrightarrow> 55296 \<le> u \<and> u < 56320"

definition is_low_surrogate :: "nat \<Rightarrow> bool" where
  "is_low_surrogate u \<longleftrightarrow> 56320 \<le> u \<and> u < 57344"

fun utf8_units :: "nat list \<Rightarrow> buffer" where
  "utf8_units [] = []"
| "utf8_units [u] =
     (if is_high_surrogate u \<or> is_low_surrogate u then utf8_code_point 65533
      else utf8_code_point u)"
| "utf8_units (u # v # rest) =
     (if is_high_surrogate u \<and> is_low_surrogate v
        then utf8_code_point (65536 + (u - 55296) * 1024 + (v - 56320)) @ utf8_units rest
      else if is_high_surrogate u \<or> is_low_surrogate u
        then utf8_code_point 65533 @ utf8_units (v # rest)
      else utf8_code_point u @ utf8_units (v # rest))"

definition utf8 :: "js_string \<Rightarrow> buffer" where
  "utf8 s = utf8_units (map unat s)"

text \<open>Big-endian reading of a Buffer as a number.\<close>

definition be_nat :: "buffer \<Rightarrow> nat" where
  "be_nat buf = foldl (\<lambda>acc b. 256 * acc + unat b) 0 buf"

section \<open>The external collaborators\<close>

text \<open>
  The module calls three collaborators that are not part of the repository: Node's
  \<^verbatim>\<open>crypto.randomBytes\<close> and \<^verbatim>\<open>crypto.createHash('sha256')\<close>, and the \<^verbatim>\<open>secp256k1\<close>
  package. The random source is an infinite tape of bytes; \<^verbatim>\<open>randomBytes(n)\<close> reads the
  next \<open>n\<close> bytes and advances the tape. A failure of the random source itself is not
  modelled.
\<close>

type_synonym entropy = "nat \<Rightarrow> byte"

definition randomBytes :: "nat \<Rightarrow> entropy \<Rightarrow> buffer \<times> entropy" where
  "randomBytes n t = (map t [0..<n], \<lambda>i. t (i + n))"

text \<open>
  The hash and the four \<^verbatim>\<open>secp256k1\<close> functions are parameters of the model. A call that
  throws returns \<open>Inl\<close> of the thrown value, of a type \<open>'e\<close> that the module never
  inspects. \<^verbatim>\<open>secp256k1.publicKeyCreate\<close> and \<^verbatim>\<open>secp256k1.sign\<close> are also handed the
  entropy tape as it stands at the call, so that a library that blinds its computation or
  draws a nonce at random is covered as well as one that computes from its arguments
  alone: whether a result depends on the tape is then a property to prove.
\<close>

record 'e externals =
  sha256 :: "buffer \<Rightarrow> buffer"
  secp_privateKeyVerify :: "buffer \<Rightarrow> bool"
  secp_publicKeyCreate :: "buffer \<Rightarrow> entropy \<Rightarrow> 'e + buffer"
  secp_sign :: "buffer \<Rightarrow> buffer \<Rightarrow> entropy \<Rightarrow> 'e + buffer"
  secp_verify :: "buffer \<Rightarrow> buffer \<Rightarrow> buffer \<Rightarrow> 'e + bool"

section \<open>The four operations of signing.js\<close>

text \<open>
  \<^verbatim>\<open>createPrivateKey\<close> (lines 16 to 22): a do-while loop that draws 32 bytes until
  \<^verbatim>\<open>secp256k1.privateKeyVerify\<close> accepts them. The loop need not end, so the model
  returns an option; the tape left after the call is returned with the key.
\<close>

partial_function (option) createPrivateKey ::
  "'e externals \<Rightarrow> entropy \<Rightarrow> (js_string \<times> entropy) option" where
  "createPrivateKey X t =
     (case randomBytes 32 t of
        (privKey, t') \<Rightarrow>
          if \<not> secp_privateKeyVerify X privKey then createPrivateKey X t'
          else Some (toString_hex privKey, t'))"

text \<open>\<^verbatim>\<open>getPublicKey\<close> (lines 37 to 43).\<close>

definition getPublicKey :: "'e externals \<Rightarrow> js_string \<Rightarrow> entropy \<Rightarrow> 'e + js_string" where
  "getPublicKey X privateKey t =
     (let buffer = from_hex privateKey in
      case secp_publicKeyCreate X buffer t of
        Inl e \<Rightarrow> Inl e
      | Inr pubKey \<Rightarrow> Inr (toString_hex pubKey))"

text \<open>
  \<^verbatim>\<open>sign\<close> (lines 58 to 66). The digest is taken as hexadecimal text and decoded again,
  as the source does.
\<close>

definition sign ::
  "'e externals \<Rightarrow> js_string \<Rightarrow> js_string \<Rightarrow> entropy \<Rightarrow> 'e + js_string" where
  "sign X privateKey message t =
     (let privateKey' = from_hex privateKey;
          hash = from_hex (toString_hex (sha256 X (utf8 message)))
      in case secp_sign X hash privateKey' t of
           Inl e \<Rightarrow> Inl e
         | Inr signature \<Rightarrow> Inr (toString_hex signature))"

text \<open>\<^verbatim>\<open>verify\<close> (lines 78 to 87).\<close>

definition verify :: "'e externals \<Rightarrow> js_string \<Rightarrow> js_string \<Rightarrow> js_string \<Rightarrow> 'e + bool" where
  "verify X publicKey message signature =
     (let hash = from_hex (toString_hex (sha256 X (utf8 message)));
          sig = from_hex signature;
          pubKey = from_hex publicKey
      in secp_verify X hash sig pubKey)"

text \<open>
  The expression \<^verbatim>\<open>verify(getPublicKey(k2), m2, sign(k1, m1))\<close> of the testable
  properties: JavaScript evaluates the arguments from left to right and an exception in
  any of the three calls ends the evaluation.
\<close>

definition verify_signed ::
  "'e externals \<Rightarrow> js_string \<Rightarrow> js_string \<Rightarrow> js_string \<Rightarrow> js_string \<Rightarrow> entropy \<Rightarrow> 'e + bool"
  where
  "verify_signed X k2 m2 k1 m1 t =
     (case getPublicKey X k2 t of
        Inl e \<Rightarrow> Inl e
      | Inr publicKey \<Rightarrow>
          (case sign X k1 m1 t of
             Inl e \<Rightarrow> Inl e
           | Inr signature \<Rightarrow> verify X publicKey m2 signature))"


section \<open>What the module expects of its collaborators\<close>

text \<open>
  The predicates of this section restate what the specification says of the
  collaborators. They are hypotheses of the theorems below; nothing is assumed of the
  parameters otherwise.
\<close>

text \<open>
  The scalar-validity check of the data model: 32 bytes that read, big-endian, as a
  nonzero number strictly below the order of the secp256k1 group.
\<close>

definition secp256k1_n :: nat where
  "secp256k1_n = 0xFFFFFFFFFFFFFFFFFFFFFFFFFFFFFFFEBAAEDCE6AF48A03BBFD25E8CD0364141"

definition scalar_valid :: "buffer \<Rightarrow> bool" where
  "scalar_valid k \<longleftrightarrow> length k = 32 \<and> 0 < be_nat k \<and> be_nat k < secp256k1_n"

text \<open>
  A valid PrivateKey: 64 hexadecimal characters that decode to a valid scalar. The
  PrivateKey itself is the 32 bytes; two strings that decode to the same bytes are two
  spellings of one PrivateKey.
\<close>

definition valid_PrivateKey :: "js_string \<Rightarrow> bool" where
  "valid_PrivateKey s \<longleftrightarrow> length s = 64 \<and> (\<forall>u \<in> set s. is_hex u) \<and> scalar_valid (from_hex s)"

text \<open>SHA-256 returns 32 bytes.\<close>

definition hash_contract :: "'e externals \<Rightarrow> bool" where
  "hash_contract X \<longleftrightarrow> (\<forall>m. length (sha256 X m) = 32)"

text \<open>\<^verbatim>\<open>privateKeyVerify\<close> is the scalar-validity check.\<close>

definition privateKeyVerify_contract :: "'e externals \<Rightarrow> bool" where
  "privateKeyVerify_contract X \<longleftrightarrow> (\<forall>k. secp_privateKeyVerify X k = scalar_valid k)"

text \<open>
  \<^verbatim>\<open>publicKeyCreate\<close> returns a compressed point (33 bytes, the first one 2 or 3) for
  a valid scalar.
\<close>

definition key_contract :: "'e externals \<Rightarrow> bool" where
  "key_contract X \<longleftrightarrow>
     (\<forall>k t. scalar_valid k \<longrightarrow>
        (\<exists>pk. secp_publicKeyCreate X k t = Inr pk \<and> length pk = 33 \<and>
              (hd pk = 2 \<or> hd pk = 3)))"

text \<open>\<^verbatim>\<open>publicKeyCreate\<close> throws for any Buffer that is not a valid scalar.\<close>

definition key_rejection_contract :: "'e externals \<Rightarrow> bool" where
  "key_rejection_contract X \<longleftrightarrow>
     (\<forall>k t. \<not> scalar_valid k \<longrightarrow> (\<exists>e. secp_publicKeyCreate X k t = Inl e))"

text \<open>The public key is computed from the scalar alone.\<close>

definition deterministic_publicKeyCreate :: "'e externals \<Rightarrow> bool" where
  "deterministic_publicKeyCreate X \<longleftrightarrow>
     (\<forall>k t t'. secp_publicKeyCreate X k t = secp_publicKeyCreate X k t')"

text \<open>\<^verbatim>\<open>sign\<close> returns a 64-byte signature for a 32-byte digest and a valid scalar.\<close>

definition sign_contract :: "'e externals \<Rightarrow> bool" where
  "sign_contract X \<longleftrightarrow>
     (\<forall>h k t. length h = 32 \<and> scalar_valid k \<longrightarrow>
        (\<exists>sg. secp_sign X h k t = Inr sg \<and> length sg = 64))"

text \<open>
  ECDSA is correct: a signature the library made over a digest with a valid scalar is
  accepted for that digest and the public key of that scalar.
\<close>

definition ecdsa_correct :: "'e externals \<Rightarrow> bool" where
  "ecdsa_correct X \<longleftrightarrow>
     (\<forall>h k t t' sg pk. length h = 32 \<longrightarrow> scalar_valid k \<longrightarrow>
        secp_sign X h k t = Inr sg \<longrightarrow> secp_publicKeyCreate X k t' = Inr pk \<longrightarrow>
        secp_verify X h sg pk = Inr True)"


text \<open>The nonce is derived from the digest and the key alone, as RFC 6979 does.\<close>

definition deterministic_nonce :: "'e externals \<Rightarrow> bool" where
  "deterministic_nonce X \<longleftrightarrow> (\<forall>h k t t'. secp_sign X h k t = secp_sign X h k t')"

section \<open>A stand-in for the collaborators\<close>

text \<open>
  A small instance that meets the contracts above, on which the theorems are run at
  concrete inputs. It is no signature scheme: the public key is the scalar behind a
  prefix byte and a signature is the digest followed by the scalar. Verification throws
  for arguments of the wrong length and for a public key whose prefix byte is not 2 or 3.
\<close>

datatype stand_in_error = Rejected

definition stand_in :: "stand_in_error externals" where
  "stand_in = \<lparr>
     sha256 = (\<lambda>m. take 32 (m @ replicate 32 0)),
     secp_privateKeyVerify = scalar_valid,
     secp_publicKeyCreate = (\<lambda>k t. if scalar_valid k then Inr (2 # k) else Inl Rejected),
     secp_sign = (\<lambda>h k t. if length h = 32 \<and> scalar_valid k then Inr (h @ k) else Inl Rejected),
     secp_verify = (\<lambda>h sg pk.
        if length h = 32 \<and> length sg = 64 \<and> length pk = 33 \<and> (hd pk = 2 \<or> hd pk = 3)
        then Inr (sg = h @ tl pk)
        else Inl Rejected) \<rparr>"

text \<open>
  The same, but the prefix byte of the public key and one byte of the signature are
  read from the entropy tape.
\<close>

definition stand_in_random :: "stand_in_error externals" where
  "stand_in_random = stand_in \<lparr>
     secp_publicKeyCreate := (\<lambda>k t.
        if scalar_valid k then Inr ((if t 0 = 0 then 2 else 3) # k) else Inl Rejected),
     secp_sign := (\<lambda>h k t.
        if length h = 32 \<and> scalar_valid k then Inr (take 31 h @ [t 0] @ k) else Inl Rejected) \<rparr>"

section \<open>Example inputs\<close>

text \<open>
  The scalar 10 as a private key, in lowercase and in uppercase hexadecimal, a key of
  32 bytes 1, the zero key, the public key the stand-in derives from the scalar 10, and
  33 zero bytes in the place of a public key.
\<close>

definition example_key :: js_string where
  "example_key = js ''000000000000000000000000000000000000000000000000000000000000000a''"

definition example_key_upper :: js_string where
  "example_key_upper = js ''000000000000000000000000000000000000000000000000000000000000000A''"

definition example_generated_key :: js_string where
  "example_generated_key = js ''0101010101010101010101010101010101010101010101010101010101010101''"

definition zero_key :: js_string where
  "zero_key = js ''0000000000000000000000000000000000000000000000000000000000000000''"

definition example_public_key :: js_string where
  "example_public_key = js ''02000000000000000000000000000000000000000000000000000000000000000a''"

definition zero_public_key :: js_string where
  "zero_public_key = js ''000000000000000000000000000000000000000000000000000000000000000000''"

definition scalar_ten :: buffer where
  "scalar_ten = [0,0,0,0,0,0,0,0,0,0,0,0,0,0,0,0,0,0,0,0,0,0,0,0,0,0,0,0,0,0,0,10]"

text \<open>
  The same key with \<open>0x100\<close> added to every code unit: 63 times U+0130 and then U+0161,
  none of them a hexadecimal digit, with the low bytes of \<^verbatim>\<open>0\<close> and \<^verbatim>\<open>a\<close>.
\<close>

definition disguised_key :: js_string where
  "disguised_key = map (\<lambda>u. u + 0x100) example_key"

text \<open>
  The messages \<^verbatim>\<open>'Hi'\<close>, \<^verbatim>\<open>'Hello World!'\<close> and \<^verbatim>\<open>'Hello World?'\<close>, the signature the
  stand-in makes over the first with the key above, and two messages that are each one
  unpaired surrogate.
\<close>

definition message_hi :: js_string where
  "message_hi = js ''Hi''"



definition example_signature :: js_string where
  "example_signature = js ''4869000000000000000000000000000000000000000000000000000000000000000000000000000000000000000000000000000000000000000000000000000a''"



text \<open>Text that is not hexadecimal: \<^verbatim>\<open>'zz'\<close> and \<^verbatim>\<open>'not-hex'\<close>.\<close>

definition zz :: js_string where
  "zz = js ''zz''"

definition not_hex :: js_string where
  "not_hex = js ''not-hex''"

text \<open>A tape of zero bytes, a tape of bytes 1, and one whose first 32 bytes are zero and all later ones 1.\<close>

definition zero_tape :: entropy where
  "zero_tape = (\<lambda>i. 0)"

definition ones_tape :: entropy where
  "ones_tape = (\<lambda>i. 1)"

definition example_tape :: entropy where
  "example_tape = (\<lambda>i. if i < 32 then 0 else 1)"

text \<open>The \<open>i\<close>-th block of 32 bytes on a tape, and the tape after \<open>i\<close> blocks.\<close>

definition after_draws :: "nat \<Rightarrow> entropy \<Rightarrow> entropy" where
  "after_draws i t = (\<lambda>j. t (j + 32 * i))"

definition draw :: "entropy \<Rightarrow> nat \<Rightarrow> buffer" where
  "draw t i = fst (randomBytes 32 (after_draws i t))"

section \<open>Lemmas on the encodings\<close>

lemma unat_unit: "n < 65536 \<Longrightarrow> unat (of_nat n :: 16 word) = n"
  by (simp add: unat_of_nat)

lemma unat_hex_digit: "k < 16 \<Longrightarrow> unat (hex_digit k) = (if k < 10 then 48 + k else 87 + k)"
  unfolding hex_digit_def by (simp only: unat_unit split: if_split) (simp add: unat_unit)

lemma unhex_hex_digit: "k < 16 \<Longrightarrow> unhex (hex_digit k) = Some k"
  by (auto simp: unhex_def unat_hex_digit hex_value_def)

lemma is_lower_hex_hex_digit: "k < 16 \<Longrightarrow> is_lower_hex (hex_digit k)"
  by (auto simp: is_lower_hex_def unat_hex_digit Let_def)

lemma is_lower_hex_is_hex: "is_lower_hex u \<Longrightarrow> is_hex u"
  by (auto simp: is_lower_hex_def is_hex_def hex_value_def Let_def)

text \<open>On a hexadecimal digit the decoder reads the digit's value.\<close>

lemma is_hex_unhex: "is_hex u \<Longrightarrow> \<exists>v. unhex u = Some v"
proof -
  assume h: "is_hex u"
  then have "unat u < 256"
    by (auto simp: is_hex_def hex_value_def split: if_splits)
  with h show ?thesis by (auto simp: unhex_def is_hex_def)
qed

text \<open>The decoder does not see the high byte of a code unit.\<close>

lemma unhex_high_byte: "unhex (u + 0x100) = unhex u"
proof -
  have "unat (u + 0x100) = (unat u + 256) mod 65536"
    by (simp add: unat_word_ariths)
  moreover have "(unat u + 256) mod 65536 mod 256 = unat u mod 256"
    by (simp add: mod_mod_cancel)
  ultimately show ?thesis by (simp add: unhex_def)
qed

lemma from_hex_high_bytes: "from_hex (map (\<lambda>u. u + 0x100) s) = from_hex s"
  by (induction s rule: from_hex.induct) (simp_all add: unhex_high_byte split: option.splits)

lemma not_is_hex_high_byte: "is_hex u \<Longrightarrow> \<not> is_hex (u + 0x100)"
proof -
  assume "is_hex u"
  then have "unat u < 256"
    by (auto simp: is_hex_def hex_value_def split: if_splits)
  then have "unat (u + 0x100) = unat u + 256"
    by (simp add: unat_word_ariths)
  then show ?thesis
    by (simp add: is_hex_def hex_value_def)
qed

lemma byte_high_nibble: "unat (b :: byte) div 16 < 16"
proof -
  have "unat b < 256" using unsigned_less [of b] by simp
  then show ?thesis by presburger
qed

lemma from_hex_toString_hex_append:
  "from_hex (toString_hex buf @ rest) = buf @ from_hex rest"
proof (induction buf)
  case Nil
  show ?case by (simp add: toString_hex_def)
next
  case (Cons b buf)
  have hi: "unhex (hex_digit (unat b div 16)) = Some (unat b div 16)"
    by (rule unhex_hex_digit) (rule byte_high_nibble)
  have lo: "unhex (hex_digit (unat b mod 16)) = Some (unat b mod 16)"
    by (rule unhex_hex_digit) simp
  from Cons show ?case
    by (simp add: toString_hex_def hi lo)
qed

lemma from_hex_toString_hex: "from_hex (toString_hex buf) = buf"
  using from_hex_toString_hex_append [of buf "[]"] by simp

lemma length_toString_hex: "length (toString_hex buf) = 2 * length buf"
  by (induction buf) (simp_all add: toString_hex_def)

lemma toString_hex_lower: "u \<in> set (toString_hex buf) \<Longrightarrow> is_lower_hex u"
proof -
  assume "u \<in> set (toString_hex buf)"
  then obtain b :: byte
    where "u = hex_digit (unat b div 16) \<or> u = hex_digit (unat b mod 16)"
    by (auto simp: toString_hex_def)
  moreover have "unat b div 16 < 16" by (rule byte_high_nibble)
  moreover have "unat b mod 16 < 16" by simp
  ultimately show ?thesis
    using is_lower_hex_hex_digit by blast
qed

lemma toString_hex_is_hex: "u \<in> set (toString_hex buf) \<Longrightarrow> is_hex u"
  by (rule is_lower_hex_is_hex) (rule toString_hex_lower)

lemma toString_hex_inj: "toString_hex a = toString_hex b \<Longrightarrow> a = b"
  using from_hex_toString_hex by metis

lemma toString_hex_Cons:
  "toString_hex (b # buf)
     = hex_digit (unat b div 16) # hex_digit (unat b mod 16) # toString_hex buf"
  by (simp add: toString_hex_def)

text \<open>
  Hexadecimal text of even length is decoded whole, and decoding goes on into what
  follows it.
\<close>

lemma from_hex_append:
  "even (length s) \<Longrightarrow> \<forall>u \<in> set s. is_hex u \<Longrightarrow> from_hex (s @ rest) = from_hex s @ from_hex rest"
proof (induction s rule: from_hex.induct)
  case (1 a b s)
  obtain hi lo where ab: "unhex a = Some hi" "unhex b = Some lo"
    using "1.prems"(2) is_hex_unhex [of a] is_hex_unhex [of b] by auto
  have "even (length s)" and "\<forall>u \<in> set s. is_hex u"
    using "1.prems" by simp_all
  then have "from_hex (s @ rest) = from_hex s @ from_hex rest"
    using "1.IH" ab by blast
  then show ?case by (simp add: ab)
qed simp_all

section \<open>The stand-in meets the contracts\<close>

lemma stand_in_hash: "hash_contract stand_in"
  by (auto simp: hash_contract_def stand_in_def)

lemma stand_in_privateKeyVerify: "privateKeyVerify_contract stand_in"
  by (simp add: privateKeyVerify_contract_def stand_in_def)

lemma stand_in_key: "key_contract stand_in"
  by (simp add: key_contract_def stand_in_def scalar_valid_def)

lemma stand_in_key_rejection: "key_rejection_contract stand_in"
  by (simp add: key_rejection_contract_def stand_in_def)

lemma stand_in_key_deterministic: "deterministic_publicKeyCreate stand_in"
  by (simp add: deterministic_publicKeyCreate_def stand_in_def)

lemma stand_in_sign: "sign_contract stand_in"
  by (simp add: sign_contract_def stand_in_def scalar_valid_def)

lemma stand_in_ecdsa: "ecdsa_correct stand_in"
  by (auto simp: ecdsa_correct_def stand_in_def scalar_valid_def split: if_splits)


lemma stand_in_nonce: "deterministic_nonce stand_in"
  by (simp add: deterministic_nonce_def stand_in_def)

section \<open>The operations in terms of the collaborators\<close>

text \<open>
  Decoding the hexadecimal text of the digest gives the digest back, so each operation
  hands the library the raw bytes.
\<close>

lemma getPublicKey_eq:
  "getPublicKey X privateKey t =
     map_sum id toString_hex (secp_publicKeyCreate X (from_hex privateKey) t)"
  by (simp add: getPublicKey_def split: sum.splits)

lemma sign_eq:
  "sign X privateKey message t =
     map_sum id toString_hex (secp_sign X (sha256 X (utf8 message)) (from_hex privateKey) t)"
  by (simp add: sign_def from_hex_toString_hex split: sum.splits)

lemma verify_eq:
  "verify X publicKey message signature =
     secp_verify X (sha256 X (utf8 message)) (from_hex signature) (from_hex publicKey)"
  by (simp add: verify_def from_hex_toString_hex)

lemma valid_PrivateKey_scalar: "valid_PrivateKey s \<Longrightarrow> scalar_valid (from_hex s)"
  by (simp add: valid_PrivateKey_def)

text \<open>Text that does not decode, put after a valid key, is not seen.\<close>

lemma from_hex_valid_key_tail:
  assumes "valid_PrivateKey k" and "from_hex tail = []"
  shows "from_hex (k @ tail) = from_hex k"
proof -
  have "even (length k)" and "\<forall>u \<in> set k. is_hex u"
    using assms(1) by (simp_all add: valid_PrivateKey_def)
  then show ?thesis
    using assms(2) by (simp add: from_hex_append)
qed

section \<open>The example inputs evaluated\<close>

lemma hex_digit_values:
  "hex_digit 0 = 48" "hex_digit (Suc 0) = 49" "hex_digit 2 = 50" "hex_digit 3 = 51"
  "hex_digit 4 = 52" "hex_digit 6 = 54" "hex_digit 8 = 56"
  "hex_digit 9 = 57" "hex_digit 10 = 97"
  by (simp_all add: hex_digit_def)

lemma replicate_32:
  "replicate 32 (x::byte) = [x,x,x,x,x,x,x,x,x,x,x,x,x,x,x,x,x,x,x,x,x,x,x,x,x,x,x,x,x,x,x,x]"
  by (simp add: eval_nat_numeral)

lemma from_hex_example_key: "from_hex example_key = scalar_ten"
  by (simp add: example_key_def js_def scalar_ten_def unhex_def hex_value_def)

lemma from_hex_example_key_upper: "from_hex example_key_upper = scalar_ten"
  by (simp add: example_key_upper_def js_def scalar_ten_def unhex_def hex_value_def)

lemma from_hex_disguised_key: "from_hex disguised_key = scalar_ten"
  by (simp add: disguised_key_def from_hex_high_bytes from_hex_example_key)

lemma from_hex_zero_key: "from_hex zero_key = replicate 32 0"
  by (simp add: zero_key_def js_def unhex_def hex_value_def replicate_32)

lemma from_hex_zz: "from_hex zz = []"
  by (simp add: zz_def js_def unhex_def hex_value_def)

lemma from_hex_not_hex: "from_hex not_hex = []"
  by (simp add: not_hex_def js_def unhex_def hex_value_def)


lemma zz_not_all_hex: "\<not> list_all is_hex zz"
  by (simp add: zz_def js_def is_hex_def hex_value_def)

lemma example_key_hex: "\<forall>u \<in> set example_key. is_hex u"
  by (simp add: example_key_def js_def is_hex_def hex_value_def)

lemma length_example_key: "length example_key = 64"
  by (simp add: example_key_def js_def)

lemma disguised_key_no_hex: "list_all (\<lambda>u. \<not> is_hex u) disguised_key"
  using example_key_hex not_is_hex_high_byte
  by (simp add: disguised_key_def list_all_iff)

lemma length_disguised_key: "length disguised_key = 64"
  by (simp add: disguised_key_def length_example_key)

lemma scalar_valid_ten: "scalar_valid scalar_ten"
  by (simp add: scalar_valid_def scalar_ten_def be_nat_def secp256k1_n_def)

lemma zeros_invalid: "\<not> scalar_valid (replicate 32 0)"
  by (simp add: replicate_32 scalar_valid_def be_nat_def)

lemma ones_valid: "scalar_valid (replicate 32 1)"
  by (simp add: replicate_32 scalar_valid_def be_nat_def secp256k1_n_def)

lemma valid_example_key: "valid_PrivateKey example_key"
  by (simp add: valid_PrivateKey_def from_hex_example_key scalar_valid_ten example_key_hex
      length_example_key)

lemma valid_example_key_upper: "valid_PrivateKey example_key_upper"
  unfolding valid_PrivateKey_def from_hex_example_key_upper
  by (simp add: scalar_valid_ten)
    (simp add: example_key_upper_def js_def is_hex_def hex_value_def)

lemma example_keys_differ: "example_key \<noteq> example_key_upper"
  by (simp add: example_key_def example_key_upper_def js_def)

lemma utf8_hi: "utf8 message_hi = [0x48, 0x69]"
  by (simp add: message_hi_def js_def utf8_def utf8_code_point_def is_high_surrogate_def
      is_low_surrogate_def)






lemma stand_in_digest_hi:
  "sha256 stand_in (utf8 message_hi)
     = [0x48,0x69,0,0,0,0,0,0,0,0,0,0,0,0,0,0,0,0,0,0,0,0,0,0,0,0,0,0,0,0,0,0]"
  by (simp add: stand_in_def utf8_hi eval_nat_numeral)

lemma example_public_key_eq: "example_public_key = toString_hex (2 # scalar_ten)"
  by (simp add: scalar_ten_def toString_hex_def hex_digit_values example_public_key_def js_def)

lemma example_signature_eq:
  "example_signature = toString_hex (sha256 stand_in (utf8 message_hi) @ scalar_ten)"
  unfolding stand_in_digest_hi
  by (simp add: scalar_ten_def toString_hex_def hex_digit_values example_signature_def js_def)

lemma getPublicKey_example: "getPublicKey stand_in example_key t = Inr example_public_key"
  unfolding example_public_key_eq
  by (simp add: getPublicKey_eq from_hex_example_key stand_in_def scalar_valid_ten)

lemma sign_example: "sign stand_in example_key message_hi t = Inr example_signature"
proof -
  have "secp_sign stand_in (sha256 stand_in (utf8 message_hi)) scalar_ten t
      = Inr (sha256 stand_in (utf8 message_hi) @ scalar_ten)"
    using stand_in_hash by (simp add: stand_in_def scalar_valid_ten hash_contract_def)
  then show ?thesis
    unfolding example_signature_eq by (simp add: sign_eq from_hex_example_key)
qed

lemma stand_in_random_hash: "length (sha256 stand_in_random m) = 32"
  by (auto simp: stand_in_random_def stand_in_def)

lemma stand_in_random_sign:
  "length h = 32 \<Longrightarrow> scalar_valid k \<Longrightarrow>
   secp_sign stand_in_random h k t = Inr (take 31 h @ [t 0] @ k)"
  by (simp add: stand_in_random_def)

lemma stand_in_random_key:
  "scalar_valid k \<Longrightarrow>
   secp_publicKeyCreate stand_in_random k t = Inr ((if t 0 = 0 then 2 else 3) # k)"
  by (simp add: stand_in_random_def)

section \<open>The key generation loop\<close>

lemma length_draw: "length (draw t i) = 32"
  by (simp add: draw_def randomBytes_def)

lemma randomBytes_32: "randomBytes 32 t = (draw t 0, after_draws (Suc 0) t)"
  by (simp add: draw_def after_draws_def randomBytes_def)

lemma after_draws_Suc: "after_draws i (after_draws (Suc 0) t) = after_draws (Suc i) t"
  by (simp add: after_draws_def fun_eq_iff ac_simps)

lemma draw_Suc: "draw (after_draws (Suc 0) t) i = draw t (Suc i)"
  by (simp add: draw_def after_draws_Suc)

lemma createPrivateKey_unfold:
  "createPrivateKey X t =
     (if \<not> secp_privateKeyVerify X (draw t 0) then createPrivateKey X (after_draws (Suc 0) t)
      else Some (toString_hex (draw t 0), after_draws (Suc 0) t))"
  by (subst createPrivateKey.simps) (simp add: randomBytes_32)

text \<open>
  The loop returns the first block of the tape that the library accepts, and leaves
  the tape just behind that block.
\<close>

lemma createPrivateKey_first_valid:
  assumes "secp_privateKeyVerify X (draw t i)"
    and "\<forall>j<i. \<not> secp_privateKeyVerify X (draw t j)"
  shows "createPrivateKey X t = Some (toString_hex (draw t i), after_draws (Suc i) t)"
  using assms
proof (induction i arbitrary: t)
  case 0
  then show ?case by (subst createPrivateKey_unfold) simp
next
  case (Suc i)
  have first: "\<not> secp_privateKeyVerify X (draw t 0)"
    using Suc.prems(2) by blast
  have "createPrivateKey X (after_draws (Suc 0) t)
      = Some (toString_hex (draw (after_draws (Suc 0) t) i),
          after_draws (Suc i) (after_draws (Suc 0) t))"
  proof (rule Suc.IH)
    show "secp_privateKeyVerify X (draw (after_draws (Suc 0) t) i)"
      using Suc.prems(1) by (simp add: draw_Suc)
    show "\<forall>j<i. \<not> secp_privateKeyVerify X (draw (after_draws (Suc 0) t) j)"
      using Suc.prems(2) by (auto simp: draw_Suc)
  qed
  with first show ?case
    by (subst createPrivateKey_unfold) (simp add: draw_Suc after_draws_Suc)
qed

text \<open>It returns as soon as the tape holds one block that the library accepts.\<close>

lemma createPrivateKey_returns:
  assumes "\<exists>i. secp_privateKeyVerify X (draw t i)"
  shows "\<exists>r. createPrivateKey X t = Some r"
proof -
  define i where "i = (LEAST i. secp_privateKeyVerify X (draw t i))"
  have "secp_privateKeyVerify X (draw t i)"
    unfolding i_def using assms by (rule LeastI_ex)
  moreover have "\<forall>j<i. \<not> secp_privateKeyVerify X (draw t j)"
    unfolding i_def using not_less_Least by blast
  ultimately show ?thesis
    using createPrivateKey_first_valid by blast
qed

text \<open>Whatever it returns is the hexadecimal text of 32 bytes that the library accepted.\<close>

lemma createPrivateKey_accepted:
  assumes "createPrivateKey X t = Some r"
  shows "\<exists>privKey. length privKey = 32 \<and> secp_privateKeyVerify X privKey \<and>
           fst r = toString_hex privKey"
proof (rule createPrivateKey.raw_induct [where P = "\<lambda>X t r. \<exists>privKey. length privKey = 32 \<and>
           secp_privateKeyVerify X privKey \<and> fst r = toString_hex privKey", OF _ assms])
  fix f :: "'a externals \<Rightarrow> entropy \<Rightarrow> (js_string \<times> entropy) option" and X t r
  assume IH: "\<And>X t r. f X t = Some r \<Longrightarrow> \<exists>privKey. length privKey = 32 \<and>
           secp_privateKeyVerify X privKey \<and> fst r = toString_hex privKey"
    and step: "(case randomBytes 32 t of
        (privKey, t') \<Rightarrow>
          if \<not> secp_privateKeyVerify X privKey then f X t'
          else Some (toString_hex privKey, t')) = Some r"
  show "\<exists>privKey. length privKey = 32 \<and> secp_privateKeyVerify X privKey \<and>
           fst r = toString_hex privKey"
  proof (cases "secp_privateKeyVerify X (draw t 0)")
    case True
    with step have "fst r = toString_hex (draw t 0)"
      by (auto simp: randomBytes_32)
    with True show ?thesis
      using length_draw by blast
  next
    case False
    with step have "f X (after_draws (Suc 0) t) = Some r"
      by (simp add: randomBytes_32)
    then show ?thesis by (rule IH)
  qed
qed

lemma draw_example_0: "draw example_tape 0 = replicate 32 0"
proof -
  have "map example_tape [0..<32] = map (\<lambda>i. 0) [0..<32]"
    by (rule map_cong) (simp_all add: example_tape_def)
  then show ?thesis
    by (simp add: draw_def randomBytes_def after_draws_def map_replicate_const)
qed

lemma draw_example_1: "draw example_tape (Suc 0) = replicate 32 1"
proof -
  have "map (\<lambda>i. example_tape (i + 32)) [0..<32] = map (\<lambda>i. 1) [0..<32]"
    by (rule map_cong) (simp_all add: example_tape_def)
  then show ?thesis
    by (simp add: draw_def randomBytes_def after_draws_def map_replicate_const)
qed

text \<open>On the example tape the first draw is the zero scalar and the second is accepted.\<close>

lemma createPrivateKey_example:
  "createPrivateKey stand_in example_tape = Some (example_generated_key, after_draws 2 example_tape)"
proof -
  have v: "secp_privateKeyVerify stand_in = scalar_valid"
    by (simp add: stand_in_def)
  have "createPrivateKey stand_in example_tape
     = Some (toString_hex (draw example_tape (Suc 0)), after_draws (Suc (Suc 0)) example_tape)"
    by (rule createPrivateKey_first_valid)
      (simp_all add: v draw_example_0 draw_example_1 zeros_invalid ones_valid)
  moreover have "toString_hex (replicate 32 1) = example_generated_key"
    by (simp add: replicate_32 toString_hex_def hex_digit_values example_generated_key_def
        js_def)
  ultimately show ?thesis
    by (simp add: draw_example_1 numeral_2_eq_2)
qed

section \<open>Signing and then verifying\<close>

text \<open>
  With valid scalars behind both keys, the three calls succeed and the result is the
  library's verdict on the digest of the second message, the signature over the digest of
  the first, and the public key of the second key.
\<close>

lemma verify_signed_eq:
  assumes "hash_contract X" "key_contract X" "sign_contract X"
    and "scalar_valid (from_hex k1)" "scalar_valid (from_hex k2)"
  shows "\<exists>pk sg. secp_publicKeyCreate X (from_hex k2) t = Inr pk \<and>
           secp_sign X (sha256 X (utf8 m1)) (from_hex k1) t = Inr sg \<and>
           getPublicKey X k2 t = Inr (toString_hex pk) \<and>
           sign X k1 m1 t = Inr (toString_hex sg) \<and>
           verify_signed X k2 m2 k1 m1 t = secp_verify X (sha256 X (utf8 m2)) sg pk"
proof -
  have h: "length (sha256 X (utf8 m1)) = 32"
    using assms(1) by (simp add: hash_contract_def)
  obtain pk where pk: "secp_publicKeyCreate X (from_hex k2) t = Inr pk"
    using assms(2,5) unfolding key_contract_def by blast
  obtain sg where sg: "secp_sign X (sha256 X (utf8 m1)) (from_hex k1) t = Inr sg"
    using assms(3,4) h unfolding sign_contract_def by blast
  have "verify_signed X k2 m2 k1 m1 t = secp_verify X (sha256 X (utf8 m2)) sg pk"
    by (simp add: verify_signed_def getPublicKey_eq sign_eq verify_eq pk sg
        from_hex_toString_hex)
  moreover have "getPublicKey X k2 t = Inr (toString_hex pk)"
    by (simp add: getPublicKey_eq pk)
  moreover have "sign X k1 m1 t = Inr (toString_hex sg)"
    by (simp add: sign_eq sg)
  ultimately show ?thesis
    using pk sg by blast
qed

text \<open>
  The verdict is \<open>true\<close> whenever the two key strings decode to the same scalar and the
  two messages have the same digest, whether or not the strings themselves are equal.
\<close>

lemma verify_signed_same_inputs:
  assumes "hash_contract X" "key_contract X" "sign_contract X" "ecdsa_correct X"
    and "scalar_valid (from_hex k1)" and "from_hex k2 = from_hex k1"
    and "sha256 X (utf8 m2) = sha256 X (utf8 m1)"
  shows "verify_signed X k2 m2 k1 m1 t = Inr True"
proof -
  have k2: "scalar_valid (from_hex k2)"
    using assms(5,6) by simp
  have h: "length (sha256 X (utf8 m1)) = 32"
    using assms(1) by (simp add: hash_contract_def)
  obtain pk sg where pk: "secp_publicKeyCreate X (from_hex k2) t = Inr pk"
    and sg: "secp_sign X (sha256 X (utf8 m1)) (from_hex k1) t = Inr sg"
    and eq: "verify_signed X k2 m2 k1 m1 t = secp_verify X (sha256 X (utf8 m2)) sg pk"
    using verify_signed_eq [OF assms(1,2,3,5) k2] by blast
  have "secp_verify X (sha256 X (utf8 m1)) sg pk = Inr True"
    using assms(4) h assms(5) sg pk assms(6) unfolding ecdsa_correct_def by metis
  with eq assms(7) show ?thesis by simp
qed




text \<open>
  No hash with 32-byte digests separates all messages: two messages with different
  UTF-8 bytes and the same digest exist, whatever the hash function is.
\<close>

lemma utf8_units_ascii: "utf8_units (replicate n 65) = replicate n 65"
proof (induction n rule: less_induct)
  case (less n)
  show ?case
  proof (cases n)
    case 0
    then show ?thesis by simp
  next
    case (Suc m)
    show ?thesis
    proof (cases m)
      case 0
      with Suc show ?thesis
        by (simp add: is_high_surrogate_def is_low_surrogate_def utf8_code_point_def)
    next
      case (Suc l)
      have "utf8_units (replicate m 65) = replicate m 65"
        using less.IH [of m] \<open>n = Suc m\<close> by simp
      with Suc \<open>n = Suc m\<close> show ?thesis
        by (simp add: is_high_surrogate_def is_low_surrogate_def utf8_code_point_def)
    qed
  qed
qed

lemma utf8_ascii: "utf8 (replicate n 65) = replicate n 65"
  by (simp add: utf8_def utf8_units_ascii)

lemma digest_collision:
  assumes "hash_contract X"
  shows "\<exists>m1 m2. utf8 m1 \<noteq> utf8 m2 \<and> sha256 X (utf8 m1) = sha256 X (utf8 m2)"
proof -
  let ?f = "\<lambda>n::nat. sha256 X (utf8 (replicate n 65))"
  have "range ?f \<subseteq> {xs. set xs \<subseteq> UNIV \<and> length xs = 32}"
    using assms by (auto simp: hash_contract_def)
  moreover have "finite {xs :: buffer. set xs \<subseteq> UNIV \<and> length xs = 32}"
    by (rule finite_lists_length_eq) simp
  ultimately have "finite (range ?f)"
    by (rule finite_subset)
  then have "\<not> inj ?f"
    using finite_imageD by fastforce
  then obtain a b where "a \<noteq> b" and "?f a = ?f b"
    by (auto simp: inj_on_def)
  moreover from \<open>a \<noteq> b\<close> have "utf8 (replicate a 65) \<noteq> utf8 (replicate b 65)"
    by (metis utf8_ascii length_replicate)
  ultimately show ?thesis by blast
qed





text \<open>
  The two spellings of the scalar 10 are one PrivateKey: a signature made with the one
  verifies under the public key of the other.
\<close>

lemma verify_signed_two_spellings:
  "example_key \<noteq> example_key_upper \<and>
   verify_signed stand_in example_key_upper message_hi example_key message_hi zero_tape
     = Inr True"
proof -
  have "verify_signed stand_in example_key_upper message_hi example_key message_hi zero_tape
      = Inr True"
    by (rule verify_signed_same_inputs [OF stand_in_hash stand_in_key stand_in_sign
          stand_in_ecdsa])
      (simp_all add: from_hex_example_key from_hex_example_key_upper scalar_valid_ten)
  then show ?thesis
    by (simp add: example_keys_differ)
qed

section \<open>The claims\<close>

text \<open>
  Claim C1. For every valid PrivateKey and every message,
  \<^verbatim>\<open>verify(getPublicKey(privateKey), message, sign(privateKey, message))\<close> returns true,
  given collaborators that meet their contracts.
\<close>

theorem sign_then_verify:
  assumes "hash_contract X" "key_contract X" "sign_contract X" "ecdsa_correct X"
    and "valid_PrivateKey privateKey"
  shows "verify_signed X privateKey message privateKey message t = Inr True"
proof -
  have "scalar_valid (from_hex privateKey)"
    using assms(5) by (rule valid_PrivateKey_scalar)
  then show ?thesis
    using assms(1,2,3,4) by (intro verify_signed_same_inputs) simp_all
qed

theorem sign_then_verify_witness:
  "hash_contract stand_in \<and> key_contract stand_in \<and> sign_contract stand_in \<and>
   ecdsa_correct stand_in \<and> valid_PrivateKey example_key \<and>
   verify_signed stand_in example_key message_hi example_key message_hi zero_tape = Inr True"
  using sign_then_verify [OF stand_in_hash stand_in_key stand_in_sign stand_in_ecdsa
      valid_example_key, of message_hi zero_tape]
  by (simp add: stand_in_hash stand_in_key stand_in_sign stand_in_ecdsa valid_example_key)






text \<open>
  Claim C4. Every value returned by \<^verbatim>\<open>createPrivateKey\<close> is a 64-character lowercase
  hexadecimal string that decodes to 32 bytes passing the scalar-validity check: nonzero
  and strictly below the group order.
\<close>

theorem createPrivateKey_valid:
  assumes "privateKeyVerify_contract X" and "createPrivateKey X t = Some (privateKey, t')"
  shows "length privateKey = 64 \<and> (\<forall>u \<in> set privateKey. is_lower_hex u) \<and>
         length (from_hex privateKey) = 32 \<and> secp_privateKeyVerify X (from_hex privateKey) \<and>
         0 < be_nat (from_hex privateKey) \<and>
         be_nat (from_hex privateKey) < secp256k1_n \<and> valid_PrivateKey privateKey"
proof -
  obtain privKey where len: "length privKey = 32" and ok: "secp_privateKeyVerify X privKey"
    and hex: "privateKey = toString_hex privKey"
    using createPrivateKey_accepted [OF assms(2)] by auto
  have "scalar_valid privKey"
    using assms(1) ok by (simp add: privateKeyVerify_contract_def)
  with len hex ok show ?thesis
    using toString_hex_lower toString_hex_is_hex
    by (auto simp: valid_PrivateKey_def scalar_valid_def length_toString_hex
        from_hex_toString_hex)
qed

theorem createPrivateKey_valid_witness:
  "privateKeyVerify_contract stand_in \<and>
   createPrivateKey stand_in example_tape
     = Some (example_generated_key, after_draws 2 example_tape) \<and>
   length example_generated_key = 64 \<and> list_all is_lower_hex example_generated_key \<and>
   length (from_hex example_generated_key) = 32 \<and> 0 < be_nat (from_hex example_generated_key) \<and>
   be_nat (from_hex example_generated_key) < secp256k1_n \<and>
   valid_PrivateKey example_generated_key"
  using createPrivateKey_valid [OF stand_in_privateKeyVerify createPrivateKey_example]
    stand_in_privateKeyVerify createPrivateKey_example
  by (simp add: list_all_iff)

text \<open>
  Claim C5. For every valid PrivateKey, \<^verbatim>\<open>getPublicKey\<close> returns a 66-character
  hexadecimal string whose first two characters are 02 or 03.
\<close>

theorem getPublicKey_compressed:
  assumes "key_contract X" and "valid_PrivateKey privateKey"
  shows "\<exists>publicKey. getPublicKey X privateKey t = Inr publicKey \<and> length publicKey = 66 \<and>
           (\<forall>u \<in> set publicKey. is_hex u) \<and>
           (take 2 publicKey = js ''02'' \<or> take 2 publicKey = js ''03'')"
proof -
  have "scalar_valid (from_hex privateKey)"
    using assms(2) by (rule valid_PrivateKey_scalar)
  with assms(1) obtain pk where pk: "secp_publicKeyCreate X (from_hex privateKey) t = Inr pk"
    and len: "length pk = 33" and pre: "hd pk = 2 \<or> hd pk = 3"
    unfolding key_contract_def by blast
  from len obtain b rest where split: "pk = b # rest"
    by (cases pk) simp_all
  with pre have "take 2 (toString_hex pk) = js ''02'' \<or> take 2 (toString_hex pk) = js ''03''"
    by (auto simp: toString_hex_Cons hex_digit_values js_def)
  moreover have "getPublicKey X privateKey t = Inr (toString_hex pk)"
    by (simp add: getPublicKey_eq pk)
  moreover have "length (toString_hex pk) = 66"
    by (simp add: length_toString_hex len)
  ultimately show ?thesis
    using toString_hex_is_hex by blast
qed

theorem getPublicKey_compressed_witness:
  "key_contract stand_in \<and> valid_PrivateKey example_key \<and>
   getPublicKey stand_in example_key zero_tape = Inr example_public_key \<and>
   length example_public_key = 66 \<and> list_all is_hex example_public_key \<and>
   take 2 example_public_key = js ''02''"
proof -
  have "take 2 example_public_key \<noteq> js ''03''"
    by (simp add: example_public_key_def js_def)
  then show ?thesis
    using getPublicKey_compressed [OF stand_in_key valid_example_key, of zero_tape]
      stand_in_key valid_example_key getPublicKey_example [of zero_tape]
    by (auto simp: list_all_iff)
qed

text \<open>
  Claim C6, as amended. \<^verbatim>\<open>getPublicKey\<close> fails exactly when the bytes that
  \<^verbatim>\<open>Buffer.from(privateKey, 'hex')\<close> decodes from its input are not a valid scalar, and
  the failure is the value thrown by \<^verbatim>\<open>secp256k1.publicKeyCreate\<close>, unchanged. So
  \<^verbatim>\<open>'not-hex'\<close> fails as the empty Buffer does, and the zero scalar fails; but a valid
  key followed by text that does not decode yields the public key of the valid key.
\<close>

theorem getPublicKey_failure:
  assumes "key_contract X" and "key_rejection_contract X"
  shows "((\<exists>e. getPublicKey X privateKey t = Inl e)
            \<longleftrightarrow> \<not> scalar_valid (from_hex privateKey)) \<and>
         (\<forall>e. getPublicKey X privateKey t = Inl e
            \<longleftrightarrow> secp_publicKeyCreate X (from_hex privateKey) t = Inl e) \<and>
         (\<exists>e. getPublicKey X not_hex t = Inl e \<and> secp_publicKeyCreate X [] t = Inl e) \<and>
         (\<exists>e. getPublicKey X zero_key t = Inl e) \<and>
         (\<forall>k tail. valid_PrivateKey k \<and> from_hex tail = [] \<longrightarrow>
            getPublicKey X (k @ tail) t = getPublicKey X k t \<and>
            (\<exists>publicKey. getPublicKey X k t = Inr publicKey))"
proof -
  have err: "getPublicKey X s t = Inl e \<longleftrightarrow> secp_publicKeyCreate X (from_hex s) t = Inl e"
    for s e
    by (cases "secp_publicKeyCreate X (from_hex s) t") (simp_all add: getPublicKey_eq)
  have fails: "(\<exists>e. secp_publicKeyCreate X k t = Inl e) \<longleftrightarrow> \<not> scalar_valid k" for k
    using assms unfolding key_contract_def key_rejection_contract_def
    by (metis Inl_Inr_False)
  have "\<not> scalar_valid []"
    by (simp add: scalar_valid_def)
  then obtain e where "secp_publicKeyCreate X [] t = Inl e"
    using fails by blast
  then have "getPublicKey X not_hex t = Inl e \<and> secp_publicKeyCreate X [] t = Inl e"
    by (simp only: err from_hex_not_hex simp_thms)
  moreover have "\<exists>e. getPublicKey X zero_key t = Inl e"
    using fails [of "replicate 32 0"] zeros_invalid
    by (simp only: err from_hex_zero_key simp_thms)
  moreover have "getPublicKey X (k @ tail) t = getPublicKey X k t \<and>
      (\<exists>publicKey. getPublicKey X k t = Inr publicKey)"
    if "valid_PrivateKey k" and "from_hex tail = []" for k tail
  proof -
    have "scalar_valid (from_hex k)"
      using that(1) by (rule valid_PrivateKey_scalar)
    then obtain pk where "secp_publicKeyCreate X (from_hex k) t = Inr pk"
      using assms(1) unfolding key_contract_def by blast
    then show ?thesis
      by (simp add: getPublicKey_eq from_hex_valid_key_tail [OF that])
  qed
  ultimately show ?thesis
    using err fails by blast
qed

theorem getPublicKey_failure_witness:
  "key_contract stand_in \<and> key_rejection_contract stand_in \<and>
   getPublicKey stand_in not_hex zero_tape = Inl Rejected \<and>
   getPublicKey stand_in zero_key zero_tape = Inl Rejected \<and>
   \<not> scalar_valid (from_hex zero_key) \<and> valid_PrivateKey example_key \<and> from_hex zz = [] \<and>
   getPublicKey stand_in (example_key @ zz) zero_tape
     = getPublicKey stand_in example_key zero_tape"
proof -
  have only: "e = Rejected" for e :: stand_in_error
    by (cases e) simp
  note inst =
    getPublicKey_failure [OF stand_in_key stand_in_key_rejection, of zero_key zero_tape]
  obtain e1 e2 where "getPublicKey stand_in not_hex zero_tape = Inl e1"
    and "getPublicKey stand_in zero_key zero_tape = Inl e2"
    using inst by blast
  moreover have "getPublicKey stand_in (example_key @ zz) zero_tape
      = getPublicKey stand_in example_key zero_tape"
    using inst valid_example_key from_hex_zz by blast
  ultimately show ?thesis
    using only [of e1] only [of e2] stand_in_key stand_in_key_rejection zeros_invalid
      valid_example_key from_hex_zz
    by (simp add: from_hex_zero_key)
qed

text \<open>
  The claim as written fails: a valid key followed by \<^verbatim>\<open>zz\<close> is not hexadecimal text
  and is not 64 characters long, yet \<^verbatim>\<open>getPublicKey\<close> does not fail on it: it returns
  what it returns for the valid key, since decoding stops silently at \<^verbatim>\<open>zz\<close>.
\<close>

theorem getPublicKey_non_hex_counterexample:
  "\<not> list_all is_hex (example_key @ zz) \<and> length (example_key @ zz) \<noteq> 64 \<and>
   \<not> valid_PrivateKey (example_key @ zz) \<and>
   \<not> isl (getPublicKey stand_in (example_key @ zz) zero_tape) \<and>
   getPublicKey stand_in (example_key @ zz) zero_tape
     = getPublicKey stand_in example_key zero_tape"
proof -
  have "from_hex (example_key @ zz) = from_hex example_key"
    using valid_example_key from_hex_zz by (rule from_hex_valid_key_tail)
  then have "getPublicKey stand_in (example_key @ zz) zero_tape
      = getPublicKey stand_in example_key zero_tape"
    by (simp add: getPublicKey_eq)
  moreover have "length (example_key @ zz) = 66"
    by (simp add: length_example_key zz_def js_def)
  ultimately show ?thesis
    using zz_not_all_hex by (simp add: getPublicKey_example valid_PrivateKey_def)
qed

text \<open>
  The same holds of a string with no hexadecimal digit at all, since only the low
  bytes of the code units are decoded.
\<close>

lemma getPublicKey_disguised_key:
  "list_all (\<lambda>u. \<not> is_hex u) disguised_key \<and>
   getPublicKey X disguised_key t = getPublicKey X example_key t"
  using disguised_key_no_hex
  by (simp add: getPublicKey_eq from_hex_disguised_key from_hex_example_key)




text \<open>
  What \<^verbatim>\<open>verify\<close> does with hexadecimal text of the right length that is no public key
  is the library's choice, and it may throw: the stand-in does, for 33 zero bytes.
\<close>

lemma verify_throws_example:
  "length zero_public_key = 66 \<and> list_all is_hex zero_public_key \<and>
   verify stand_in zero_public_key message_hi example_signature = Inl Rejected"
proof -
  have "from_hex zero_public_key = 0 # replicate 32 0"
    by (simp add: zero_public_key_def js_def unhex_def hex_value_def replicate_32)
  then have "verify stand_in zero_public_key message_hi example_signature = Inl Rejected"
    by (simp add: verify_eq stand_in_def)
  then show ?thesis
    by (simp add: zero_public_key_def js_def list_all_iff is_hex_def hex_value_def)
qed

text \<open>
  Claim C8. For every valid PrivateKey and every message, \<^verbatim>\<open>sign\<close> has the library
  sign the raw 32-byte SHA-256 digest of the UTF-8 bytes of the message, not the
  hexadecimal text of the digest, and returns the 64-byte signature as a string of 128
  hexadecimal characters.
\<close>

theorem sign_raw_digest:
  assumes "hash_contract X" "sign_contract X" and "valid_PrivateKey privateKey"
  shows "\<exists>sg. secp_sign X (sha256 X (utf8 message)) (from_hex privateKey) t = Inr sg \<and>
           length (sha256 X (utf8 message)) = 32 \<and> length sg = 64 \<and>
           sign X privateKey message t = Inr (toString_hex sg) \<and>
           length (toString_hex sg) = 128 \<and> (\<forall>u \<in> set (toString_hex sg). is_hex u) \<and>
           from_hex (toString_hex sg) = sg"
proof -
  let ?h = "sha256 X (utf8 message)"
  have h: "length ?h = 32"
    using assms(1) by (simp add: hash_contract_def)
  have k: "scalar_valid (from_hex privateKey)"
    using assms(3) by (rule valid_PrivateKey_scalar)
  obtain sg where sg: "secp_sign X ?h (from_hex privateKey) t = Inr sg"
    and len: "length sg = 64"
    using assms(2) h k unfolding sign_contract_def by blast
  have "sign X privateKey message t = Inr (toString_hex sg)"
    by (simp add: sign_eq sg)
  with sg len h show ?thesis
    using toString_hex_is_hex by (auto simp: length_toString_hex from_hex_toString_hex)
qed

theorem sign_raw_digest_witness:
  "hash_contract stand_in \<and> sign_contract stand_in \<and> valid_PrivateKey example_key \<and>
   secp_sign stand_in (sha256 stand_in (utf8 message_hi)) (from_hex example_key) zero_tape
     = Inr (from_hex example_signature) \<and>
   length (sha256 stand_in (utf8 message_hi)) = 32 \<and> length (from_hex example_signature) = 64 \<and>
   sign stand_in example_key message_hi zero_tape = Inr example_signature \<and>
   length example_signature = 128 \<and> list_all is_hex example_signature"
proof -
  obtain sg
    where sg: "secp_sign stand_in (sha256 stand_in (utf8 message_hi)) (from_hex example_key)
           zero_tape = Inr sg"
      and rest: "length (sha256 stand_in (utf8 message_hi)) = 32" "length sg = 64"
        "sign stand_in example_key message_hi zero_tape = Inr (toString_hex sg)"
        "length (toString_hex sg) = 128" "\<forall>u \<in> set (toString_hex sg). is_hex u"
        "from_hex (toString_hex sg) = sg"
    using sign_raw_digest [OF stand_in_hash stand_in_sign valid_example_key,
        of message_hi zero_tape]
    by blast
  from rest(3) have eq: "toString_hex sg = example_signature"
    by (simp add: sign_example)
  with sg rest show ?thesis
    by (simp add: stand_in_hash stand_in_sign valid_example_key list_all_iff)
qed

text \<open>
  Claim C9. \<^verbatim>\<open>getPublicKey\<close> is deterministic: when the library computes the public
  key from the scalar alone, two calls with the same private key return the same result,
  whatever the state of the entropy source at each call.
\<close>

theorem getPublicKey_deterministic:
  assumes "deterministic_publicKeyCreate X"
  shows "getPublicKey X privateKey t = getPublicKey X privateKey t'"
proof -
  have "secp_publicKeyCreate X (from_hex privateKey) t
      = secp_publicKeyCreate X (from_hex privateKey) t'"
    using assms unfolding deterministic_publicKeyCreate_def by blast
  then show ?thesis by (simp add: getPublicKey_eq)
qed

theorem getPublicKey_deterministic_witness:
  "deterministic_publicKeyCreate stand_in \<and>
   getPublicKey stand_in example_key zero_tape = getPublicKey stand_in example_key ones_tape"
  using getPublicKey_deterministic [OF stand_in_key_deterministic,
      of example_key zero_tape ones_tape]
  by (simp add: stand_in_key_deterministic)

text \<open>
  The module adds no determinism of its own: with a library whose public key depends on
  the entropy source, two calls of \<^verbatim>\<open>getPublicKey\<close> on the same valid key differ.
\<close>

lemma getPublicKey_random:
  "getPublicKey stand_in_random example_key zero_tape
     \<noteq> getPublicKey stand_in_random example_key ones_tape"
proof
  assume "getPublicKey stand_in_random example_key zero_tape
     = getPublicKey stand_in_random example_key ones_tape"
  then have "toString_hex (2 # scalar_ten) = toString_hex (3 # scalar_ten)"
    by (simp add: getPublicKey_eq from_hex_example_key
        stand_in_random_key [OF scalar_valid_ten] zero_tape_def ones_tape_def)
  then have "(2 :: byte) = 3"
    by (auto dest!: toString_hex_inj)
  then show False by simp
qed

text \<open>
  Claim C10. \<^verbatim>\<open>sign\<close> is deterministic: when the library derives the nonce from the
  digest and the key alone, two calls with the same private key and message return the
  same signature string, whatever the state of the entropy source at each call.
\<close>

theorem sign_deterministic:
  assumes "deterministic_nonce X"
  shows "sign X privateKey message t = sign X privateKey message t'"
proof -
  have "secp_sign X (sha256 X (utf8 message)) (from_hex privateKey) t
      = secp_sign X (sha256 X (utf8 message)) (from_hex privateKey) t'"
    using assms unfolding deterministic_nonce_def by blast
  then show ?thesis by (simp add: sign_eq)
qed

theorem sign_deterministic_witness:
  "deterministic_nonce stand_in \<and>
   sign stand_in example_key message_hi zero_tape
     = sign stand_in example_key message_hi ones_tape"
  using sign_deterministic [OF stand_in_nonce, of example_key message_hi zero_tape ones_tape]
  by (simp add: stand_in_nonce)

text \<open>
  The module adds no determinism of its own: with a library that draws its nonce from
  the entropy source, two calls of \<^verbatim>\<open>sign\<close> on the same input differ.
\<close>

lemma sign_random_nonce:
  "sign stand_in_random example_key message_hi zero_tape
     \<noteq> sign stand_in_random example_key message_hi ones_tape"
proof
  let ?h = "sha256 stand_in_random (utf8 message_hi)"
  assume "sign stand_in_random example_key message_hi zero_tape
     = sign stand_in_random example_key message_hi ones_tape"
  then have "toString_hex (take 31 ?h @ [zero_tape 0] @ scalar_ten)
     = toString_hex (take 31 ?h @ [ones_tape 0] @ scalar_ten)"
    by (simp add: sign_eq from_hex_example_key
        stand_in_random_sign [OF stand_in_random_hash scalar_valid_ten])
  then have "zero_tape 0 = ones_tape 0"
    by (auto dest!: toString_hex_inj)
  then show False
    by (simp add: zero_tape_def ones_tape_def)
qed

end
